theory Spec2Isabelle
  imports Complex_Main "HOL-Library.Sublist" "HOL-Library.Multiset"
    "HOL-Library.Char_ord" "HOL-Library.List_Lexorder"
begin

section \<open>Data model\<close>

text \<open>
  One row of \<^verbatim>\<open>cleaned_data.csv\<close>. The two counts are integer columns, the deposit
  amount is a float column; floats are modelled as exact reals (rounding of the binary
  format is not modelled). A data frame is the list of its rows in index order.
\<close>

record deposit_record =
  state_name :: string
  district_name :: string
  region :: string
  population_group :: string
  no_of_offices :: int
  no_of_accounts :: int
  deposit_amount :: real

type_synonym dataframe = "deposit_record list"

text \<open>One row of \<^verbatim>\<open>final_model_comparison.csv\<close>, and a deserialised regressor.\<close>

record model_row =
  model_name :: string
  test_r2 :: real
  test_rmse :: real
  test_mae :: real
  training_time :: real

datatype fitted_model = FittedModel string

section \<open>Library arithmetic used by the pages\<close>

text \<open>
  A numpy float is either a finite number or one of \<^verbatim>\<open>inf\<close>, \<^verbatim>\<open>-inf\<close>, \<^verbatim>\<open>nan\<close>.
  The pages never test which of the three they hold, so the three are one value here:
  \<open>None\<close>. Division of numpy scalars and of pandas columns by zero does not raise; it
  yields such a value. Sums and products with such a value stay non-finite.
\<close>

type_synonym np_float = "real option"

definition np_truediv :: "real \<Rightarrow> real \<Rightarrow> np_float" where
  "np_truediv a b = (if b = 0 then None else Some (a / b))"

definition np_div :: "np_float \<Rightarrow> real \<Rightarrow> np_float" where
  "np_div x b = (case x of None \<Rightarrow> None | Some a \<Rightarrow> np_truediv a b)"

definition np_mul :: "np_float \<Rightarrow> np_float \<Rightarrow> np_float" where
  "np_mul x y = (case x of None \<Rightarrow> None
                 | Some a \<Rightarrow> (case y of None \<Rightarrow> None | Some b \<Rightarrow> Some (a * b)))"

definition np_add :: "np_float \<Rightarrow> np_float \<Rightarrow> np_float" where
  "np_add x y = (case x of None \<Rightarrow> None
                 | Some a \<Rightarrow> (case y of None \<Rightarrow> None | Some b \<Rightarrow> Some (a + b)))"

text \<open>\<^verbatim>\<open>Series.mean()\<close>: the mean of an empty column is \<^verbatim>\<open>nan\<close>, not an exception.\<close>

definition series_mean :: "real list \<Rightarrow> np_float" where
  "series_mean xs = (if xs = [] then None else Some (sum_list xs / real (length xs)))"

text \<open>
  A division by zero does not pass unnoticed: numpy reports it with a
  \<^verbatim>\<open>RuntimeWarning\<close> ("divide by zero encountered", or "invalid value encountered" for
  zero by zero) next to the non-finite value. \<open>np_truediv_checked\<close> is the division
  together with what it reports.
\<close>

datatype np_warning = DivideByZero | InvalidValue

definition np_truediv_checked :: "real \<Rightarrow> real \<Rightarrow> np_float \<times> np_warning list" where
  "np_truediv_checked a b =
     (if b = 0 then (None, [if a = 0 then InvalidValue else DivideByZero])
      else (Some (a / b), []))"

text \<open>
  The reduction behind \<^verbatim>\<open>Series.mean()\<close>, with what it reports: it counts the values,
  sums them, and divides only when the count is positive; for a column without values it
  answers \<^verbatim>\<open>nan\<close>, the library's marker for "no value", without dividing.
\<close>

definition nanmean :: "real list \<Rightarrow> np_float \<times> np_warning list" where
  "nanmean values =
     (let count = real (length values);
          the_sum = sum_list values
      in if 0 < count then np_truediv_checked the_sum count else (None, []))"

text \<open>\<^verbatim>\<open>Series.nunique()\<close> and \<^verbatim>\<open>sorted(Series.unique().tolist())\<close>.\<close>

definition nunique :: "'a list \<Rightarrow> nat" where
  "nunique xs = length (remdups xs)"

definition sorted_unique :: "string list \<Rightarrow> string list" where
  "sorted_unique xs = sort (remdups xs)"

text \<open>\<^verbatim>\<open>head(n)\<close>: the first \<open>n\<close> rows; for negative \<open>n\<close> all rows but the last \<open>-n\<close>.\<close>

definition head :: "int \<Rightarrow> 'a list \<Rightarrow> 'a list" where
  "head n xs = (if 0 \<le> n then take (nat n) xs else take (length xs - nat (- n)) xs)"

text \<open>\<^verbatim>\<open>round(2)\<close>: scale by 100, round half to even, scale back.\<close>

definition round_half_even :: "real \<Rightarrow> int" where
  "round_half_even x =
     (let f = \<lfloor>x\<rfloor>; d = x - of_int f
      in if d < 1 / 2 then f else if 1 / 2 < d then f + 1 else if even f then f else f + 1)"

definition np_round2 :: "np_float \<Rightarrow> np_float" where
  "np_round2 x = map_option (\<lambda>v. of_int (round_half_even (v * 100)) / 100) x"

text \<open>
  \<^verbatim>\<open>sort_values\<close> is called without a \<^verbatim>\<open>kind\<close> argument, so the order among rows of
  equal value is whatever the library's default algorithm leaves. The sorting routine is
  therefore a parameter of the functions below; \<open>sorts_by_value\<close> is what every sorting
  routine guarantees: the same rows, in the requested order of the value.
\<close>

type_synonym 'a sorter = "bool \<Rightarrow> ('a \<Rightarrow> real) \<Rightarrow> 'a list \<Rightarrow> 'a list"

definition in_order :: "bool \<Rightarrow> ('a \<Rightarrow> real) \<Rightarrow> 'a \<Rightarrow> 'a \<Rightarrow> bool" where
  "in_order ascending val a b = (if ascending then val a \<le> val b else val b \<le> val a)"

definition sorts_by_value :: "'a sorter \<Rightarrow> bool" where
  "sorts_by_value sv =
     (\<forall>ascending val xs. mset (sv ascending val xs) = mset xs
        \<and> sorted_wrt (in_order ascending val) (sv ascending val xs))"

text \<open>
  A sorting routine that keeps rows of equal value in their incoming order, in both
  directions (for descending order: reverse, sort ascending, reverse).
\<close>

definition stable_sort_values :: "'a sorter" where
  "stable_sort_values ascending val xs =
     (if ascending then sort_key val xs else rev (sort_key val (rev xs)))"

text \<open>
  Another admissible routine: it leaves rows of equal value in the reverse of their
  incoming order.
\<close>

definition reversing_sort_values :: "'a sorter" where
  "reversing_sort_values ascending val xs =
     (if ascending then sort_key val (rev xs) else rev (sort_key val xs))"

section \<open>utils/data\_loader.py\<close>

subsection \<open>Loading artifacts\<close>

text \<open>
  Reading a file either raises an exception (a subclass of \<^verbatim>\<open>Exception\<close>, with its
  message) or yields the parsed content. The artifact store holds the outcome of each
  read. Memoisation of the loaders is not modelled: the store does not change.
\<close>

datatype io_exception = FileNotFoundError string | ParserError string | PermissionError string

fun exception_message :: "io_exception \<Rightarrow> string" where
  "exception_message (FileNotFoundError m) = m"
| "exception_message (ParserError m) = m"
| "exception_message (PermissionError m) = m"

record artifact_store =
  cleaned_data_csv :: "io_exception + dataframe"
  featured_data_csv :: "io_exception + dataframe"
  final_model_comparison_csv :: "io_exception + model_row list"
  saved_models :: "string \<Rightarrow> io_exception + fitted_model"
  insights_txt :: "io_exception + string"

datatype ui_event =
    StError string
  | StWarning string
  | StSuccess string
  | StInfo string
  | StText string
  | StMetric string np_float
  | Section string

text \<open>
  A loader returns the loaded value (\<open>None\<close> for Python's \<^verbatim>\<open>None\<close>) and the messages
  it put on the page.
\<close>

definition load_cleaned_data :: "artifact_store \<Rightarrow> dataframe option \<times> ui_event list" where
  "load_cleaned_data fs =
     (case cleaned_data_csv fs of
        Inr df \<Rightarrow> (Some df, [])
      | Inl e \<Rightarrow> (None, [StError (''Error loading cleaned data: '' @ exception_message e)]))"

definition load_featured_data :: "artifact_store \<Rightarrow> dataframe option \<times> ui_event list" where
  "load_featured_data fs =
     (case featured_data_csv fs of
        Inr df \<Rightarrow> (Some df, [])
      | Inl e \<Rightarrow> (None, [StError (''Error loading featured data: '' @ exception_message e)]))"

definition load_model_comparison ::
  "artifact_store \<Rightarrow> model_row list option \<times> ui_event list" where
  "load_model_comparison fs =
     (case final_model_comparison_csv fs of
        Inr df \<Rightarrow> (Some df, [])
      | Inl e \<Rightarrow> (None, [StError (''Error loading model comparison: '' @ exception_message e)]))"

definition load_best_model ::
  "artifact_store \<Rightarrow> string \<Rightarrow> fitted_model option \<times> ui_event list" where
  "load_best_model fs name =
     (case saved_models fs name of
        Inr model \<Rightarrow> (Some model, [])
      | Inl e \<Rightarrow> (None, [StError (''Error loading model '' @ name @ '': '' @ exception_message e)]))"

definition load_insights_narrative :: "artifact_store \<Rightarrow> string option \<times> ui_event list" where
  "load_insights_narrative fs =
     (case insights_txt fs of
        Inr narrative \<Rightarrow> (Some narrative, [])
      | Inl e \<Rightarrow> (None, [StError (''Error loading insights: '' @ exception_message e)]))"

subsection \<open>Category enumerations\<close>

text \<open>
  \<open>get_population_groups\<close> reads nothing; it takes the store only so that its
  independence of the store can be stated.
\<close>

definition get_population_groups :: "artifact_store \<Rightarrow> string list" where
  "get_population_groups fs = [''Metropolitan'', ''Urban'', ''Semi-urban'', ''Rural'']"

definition get_regions :: "artifact_store \<Rightarrow> string list" where
  "get_regions fs =
     (case fst (load_cleaned_data fs) of
        Some df \<Rightarrow> sorted_unique (map region df)
      | None \<Rightarrow> [])"

definition get_states :: "artifact_store \<Rightarrow> string list" where
  "get_states fs =
     (case fst (load_cleaned_data fs) of
        Some df \<Rightarrow> sorted_unique (map state_name df)
      | None \<Rightarrow> [])"

text \<open>Python truthiness of an optional string: \<^verbatim>\<open>None\<close> and \<^verbatim>\<open>""\<close> are false.\<close>

definition truthy :: "string option \<Rightarrow> bool" where
  "truthy c = (case c of None \<Rightarrow> False | Some s \<Rightarrow> s \<noteq> [])"

definition get_districts :: "artifact_store \<Rightarrow> string option \<Rightarrow> string list" where
  "get_districts fs st =
     (case fst (load_cleaned_data fs) of
        Some df \<Rightarrow>
          (if truthy st
           then sorted_unique (map district_name (filter (\<lambda>r. Some (state_name r) = st) df))
           else sorted_unique (map district_name df))
      | None \<Rightarrow> [])"

subsection \<open>filter\_data and get\_summary\_stats\<close>

definition filter_data ::
  "dataframe \<Rightarrow> string option \<Rightarrow> string option \<Rightarrow> string option \<Rightarrow> dataframe" where
  "filter_data df pg rg st =
     (let filtered_df = df;
          filtered_df = (if truthy pg \<and> pg \<noteq> Some ''All''
                         then filter (\<lambda>r. Some (population_group r) = pg) filtered_df
                         else filtered_df);
          filtered_df = (if truthy rg \<and> rg \<noteq> Some ''All''
                         then filter (\<lambda>r. Some (region r) = rg) filtered_df
                         else filtered_df);
          filtered_df = (if truthy st \<and> st \<noteq> Some ''All''
                         then filter (\<lambda>r. Some (state_name r) = st) filtered_df
                         else filtered_df)
      in filtered_df)"

record summary_stats =
  total_records :: nat
  total_deposits :: real
  avg_deposits :: np_float
  total_offices :: int
  total_accounts :: int
  unique_states :: nat
  unique_districts :: nat

text \<open>
  \<open>get_summary_stats\<close> returns the dictionary of statistics, and with it the warnings
  reported while it was computed. Each entry is a reduction of one column of the table,
  defined for a column without values as well; the only division is the one inside the
  mean.
\<close>

definition get_summary_stats :: "dataframe \<Rightarrow> summary_stats \<times> np_warning list" where
  "get_summary_stats df =
     (let mean_deposit = nanmean (map deposit_amount df)
      in (\<lparr> total_records = length df,
            total_deposits = sum_list (map deposit_amount df),
            avg_deposits = fst mean_deposit,
            total_offices = sum_list (map no_of_offices df),
            total_accounts = sum_list (map no_of_accounts df),
            unique_states = nunique (map state_name df),
            unique_districts = nunique (map district_name df) \<rparr>,
          snd mean_deposit))"

section \<open>Page scripts: what happens when a load fails\<close>

text \<open>
  A page is a script run from top to bottom. \<^verbatim>\<open>st.stop()\<close> ends the run
  (\<open>Stopped\<close>); an exception that nothing catches ends it with a fault (\<open>Faulted\<close>).
  What a script draws from a loaded table is long and depends on the table: it is a
  parameter of the page here, a function from the table to what is drawn and to how the
  run ends. Nothing is assumed of it; it may complete, stop or fault. \<open>then_run\<close> runs a
  second step only if the first one completed. The fixed text that a script draws before
  its load (the title, an introduction) is left out; fixed text after the load is kept as
  \<open>Section\<close> steps, to show how far a run gets.
\<close>

datatype page_status = Completed | Stopped | Faulted

type_synonym render = "ui_event list \<times> page_status"

definition then_run :: "render \<Rightarrow> render \<Rightarrow> render" where
  "then_run a b = (if snd a = Completed then (fst a @ fst b, snd b) else a)"

definition eda_page :: "(dataframe \<Rightarrow> render) \<Rightarrow> artifact_store \<Rightarrow> render" where
  "eda_page body fs =
     (let (df, shown) = load_cleaned_data fs
      in case df of
           None \<Rightarrow>
             (shown @ [StError ''Unable to load data. Please check if the data files exist in the correct directory.''],
              Stopped)
         | Some table \<Rightarrow> then_run (shown, Completed) (body table))"

definition geographic_page :: "(dataframe \<Rightarrow> render) \<Rightarrow> artifact_store \<Rightarrow> render" where
  "geographic_page body fs =
     (let (df, shown) = load_cleaned_data fs
      in case df of
           None \<Rightarrow>
             (shown @ [StError ''Unable to load data. Please check if the data file exists.''],
              Stopped)
         | Some table \<Rightarrow> then_run (shown, Completed) (body table))"

definition predictions_page :: "(dataframe \<Rightarrow> render) \<Rightarrow> artifact_store \<Rightarrow> render" where
  "predictions_page body fs =
     (let (df, shown) = load_cleaned_data fs
      in case df of
           None \<Rightarrow> (shown @ [StError ''Unable to load reference data.''], Stopped)
         | Some table \<Rightarrow> then_run (shown, Completed) (body table))"

definition clustering_page :: "(dataframe \<Rightarrow> render) \<Rightarrow> artifact_store \<Rightarrow> render" where
  "clustering_page body fs =
     (let (df, shown) = load_featured_data fs
      in case df of
           None \<Rightarrow>
             (shown @ [StError ''Unable to load featured data. Please check if the file exists.''],
              Stopped)
         | Some table \<Rightarrow> then_run (shown, Completed) (body table))"

definition interpretability_page :: "(dataframe \<Rightarrow> render) \<Rightarrow> artifact_store \<Rightarrow> render" where
  "interpretability_page body fs =
     (let (df, shown) = load_featured_data fs
      in case df of
           None \<Rightarrow>
             (shown @ [StError ''Unable to load featured data. Please check if the file exists.''],
              Stopped)
         | Some table \<Rightarrow> then_run (shown, Completed) (body table))"

text \<open>
  The Models page stops only when the comparison table is missing. It then draws from
  the comparison table (\<open>overview\<close>: the metrics, the sortable table, the charts), loads the
  saved model and the featured table, draws one section only if both are there, and
  draws from the comparison table again (\<open>summary\<close>: the three rankings and the download).
  The two loaders catch what the reads raise, so the \<^verbatim>\<open>try\<close> around them has nothing to
  catch.
\<close>

definition models_page ::
  "(model_row list \<Rightarrow> render) \<Rightarrow> (model_row list \<Rightarrow> render) \<Rightarrow> artifact_store \<Rightarrow> render" where
  "models_page overview summary fs =
     (let (comparison_df, shown) = load_model_comparison fs
      in case comparison_df of
           None \<Rightarrow> (shown @ [StError ''Unable to load model comparison data.''], Stopped)
         | Some table \<Rightarrow>
             then_run (shown, Completed)
               (then_run (overview table)
                  (let (best_model, shown_model) = load_best_model fs ''extra_trees'';
                       (featured_df, shown_featured) = load_featured_data fs
                   in then_run (shown_model @ shown_featured, Completed)
                        (then_run
                           (if best_model \<noteq> None \<and> featured_df \<noteq> None
                            then ([Section ''Model Predictions Analysis'',
                                   StInfo ''Loading predictions from the trained Extra Trees model...''],
                                  Completed)
                            else ([], Completed))
                           (summary table)))))"

text \<open>
  The Insights page never stops. All it draws is fixed text, except the regional ranking,
  drawn from the cleaned table inside a test that the table is there, and the narrative.
\<close>

definition insights_opening :: "ui_event list" where
  "insights_opening =
     [Section ''Executive Summary'', Section ''Key Findings'',
      Section ''Data Distribution Patterns'', Section ''Banking Infrastructure Insights'',
      Section ''Regional Disparities'']"

definition insights_middle :: "ui_event list" where
  "insights_middle =
     [StWarning ''Challenges'', Section ''Machine Learning Insights'',
      Section ''Actionable Recommendations'', Section ''Practical Use Cases'',
      Section ''Return on Investment Analysis'']"

definition insights_narrative :: "string option \<Rightarrow> ui_event list" where
  "insights_narrative narrative =
     (if truthy narrative then [StText (the narrative)]
      else [StWarning ''Narrative file not found. Please ensure data_storytelling_insights.txt exists in reports/model_results/''])"

definition insights_page :: "(dataframe \<Rightarrow> render) \<Rightarrow> artifact_store \<Rightarrow> render" where
  "insights_page regional fs =
     (let (narrative, shown_narrative) = load_insights_narrative fs;
          (df, shown) = load_cleaned_data fs
      in then_run (shown_narrative @ shown @ insights_opening, Completed)
           (then_run
              (case df of Some table \<Rightarrow> regional table | None \<Rightarrow> ([], Completed))
              (insights_middle @ insights_narrative narrative @ [StSuccess ''Conclusion''],
               Completed)))"

section \<open>Files on disk\<close>

text \<open>
  The state of an artifact file, as the reading library meets it. A file can be missing,
  unreadable, or malformed so that the parser gives up: the read raises. A file can also
  be malformed and still be accepted (a table cut off at the end of a line, a pickle of
  another object): the read returns what it parsed. \<open>read_all\<close> is the store that the
  reads of a disk produce.
\<close>

datatype 'a disk_file = Missing | Unreadable | Unparsable | Misparsed 'a | Intact 'a

definition read_file :: "'a disk_file \<Rightarrow> io_exception + 'a" where
  "read_file f =
     (case f of
        Missing \<Rightarrow> Inl (FileNotFoundError ''No such file or directory'')
      | Unreadable \<Rightarrow> Inl (PermissionError ''Permission denied'')
      | Unparsable \<Rightarrow> Inl (ParserError ''Error tokenizing data'')
      | Misparsed content \<Rightarrow> Inr content
      | Intact content \<Rightarrow> Inr content)"

record disk =
  cleaned_file :: "dataframe disk_file"
  featured_file :: "dataframe disk_file"
  comparison_file :: "model_row list disk_file"
  model_files :: "string \<Rightarrow> fitted_model disk_file"
  insights_file :: "string disk_file"

definition read_all :: "disk \<Rightarrow> artifact_store" where
  "read_all d =
     \<lparr> cleaned_data_csv = read_file (cleaned_file d),
       featured_data_csv = read_file (featured_file d),
       final_model_comparison_csv = read_file (comparison_file d),
       saved_models = (\<lambda>name. read_file (model_files d name)),
       insights_txt = read_file (insights_file d) \<rparr>"

section \<open>pages/3 Predictions: the prediction button and the scenario comparison\<close>

datatype prediction_result =
    PredictionComplete np_float
  | NoSimilarRecords string

definition similar_records :: "dataframe \<Rightarrow> string \<Rightarrow> string \<Rightarrow> dataframe" where
  "similar_records df pg rg = filter (\<lambda>r. population_group r = pg \<and> region r = rg) df"

definition predict_deposit_amount ::
  "dataframe \<Rightarrow> string \<Rightarrow> string \<Rightarrow> int \<Rightarrow> int \<Rightarrow> prediction_result" where
  "predict_deposit_amount df pg rg offices accounts =
     (let similar = similar_records df pg rg
      in if 0 < length similar
         then
           let avg_deposit_per_office =
                 np_truediv (sum_list (map deposit_amount similar))
                            (of_int (sum_list (map no_of_offices similar)));
               avg_deposit_per_account =
                 np_truediv (sum_list (map deposit_amount similar))
                            (of_int (sum_list (map no_of_accounts similar)));
               predicted_deposit =
                 np_add (np_mul (np_mul (Some (of_int offices)) avg_deposit_per_office) (Some 0.5))
                        (np_mul (np_mul (Some (of_int accounts)) avg_deposit_per_account) (Some 0.5))
           in PredictionComplete predicted_deposit
         else NoSimilarRecords
                ''No similar records found for this combination. Please try different parameters.'')"

definition s_prediction :: "dataframe \<Rightarrow> int \<Rightarrow> int \<Rightarrow> string \<Rightarrow> string \<Rightarrow> np_float" where
  "s_prediction df s_offices s_accounts s_pop_group s_region =
     (let avg_deposits = series_mean (map deposit_amount df);
          similar = similar_records df s_pop_group s_region
      in if 0 < length similar
         then
           let avg_per_office =
                 np_truediv (sum_list (map deposit_amount similar))
                            (of_int (sum_list (map no_of_offices similar)))
           in np_mul (Some (of_int s_offices)) avg_per_office
         else avg_deposits)"

definition scenario_metrics ::
  "dataframe \<Rightarrow> int \<Rightarrow> int \<Rightarrow> string \<Rightarrow> string \<Rightarrow> ui_event list" where
  "scenario_metrics df s_offices s_accounts s_pop_group s_region =
     (let p = s_prediction df s_offices s_accounts s_pop_group s_region
      in [StMetric ''Predicted Deposit'' p, StMetric ''Per Office'' (np_div p (of_int s_offices))])"

section \<open>Top-N selections (utils/visualizations.py, pages/5 Geographic)\<close>

text \<open>
  \<^verbatim>\<open>groupby(key)\<close> builds one row per distinct key, in sorted key order, before anything
  is sorted by value.
\<close>

definition groupby_sum ::
  "(deposit_record \<Rightarrow> string) \<Rightarrow> dataframe \<Rightarrow> (string \<times> real) list" where
  "groupby_sum key df =
     map (\<lambda>k. (k, sum_list (map deposit_amount (filter (\<lambda>r. key r = k) df))))
         (sorted_unique (map key df))"

definition create_top_states_chart ::
  "(string \<times> real) sorter \<Rightarrow> dataframe \<Rightarrow> int \<Rightarrow> (string \<times> real) list" where
  "create_top_states_chart sort_values df top_n =
     head top_n (sort_values False snd (groupby_sum state_name df))"

text \<open>Per district: the deposit sum and the state of the district's first row.\<close>

definition district_totals :: "dataframe \<Rightarrow> (string \<times> real \<times> string) list" where
  "district_totals df =
     map (\<lambda>k. let g = filter (\<lambda>r. district_name r = k) df
               in (k, sum_list (map deposit_amount g),
                   (case g of [] \<Rightarrow> [] | r # _ \<Rightarrow> state_name r)))
         (sorted_unique (map district_name df))"

definition top_districts ::
  "(string \<times> real \<times> string) sorter \<Rightarrow> dataframe \<Rightarrow> (string \<times> real \<times> string) list" where
  "top_districts sort_values df = head 10 (sort_values False (\<lambda>g. fst (snd g)) (district_totals df))"

definition bottom_districts ::
  "(string \<times> real \<times> string) sorter \<Rightarrow> dataframe \<Rightarrow> (string \<times> real \<times> string) list" where
  "bottom_districts sort_values df = head 10 (sort_values True (\<lambda>g. fst (snd g)) (district_totals df))"

section \<open>Ratio metrics (pages/5 Geographic)\<close>

definition replace_0_1 :: "int \<Rightarrow> int" where
  "replace_0_1 n = (if n = 0 then 1 else n)"

text \<open>The per-row metric column chosen in the select box.\<close>

definition metric :: "string \<Rightarrow> deposit_record \<Rightarrow> np_float" where
  "metric efficiency_metric r =
     (if efficiency_metric = ''Accounts per Office''
      then np_truediv (of_int (no_of_accounts r)) (of_int (replace_0_1 (no_of_offices r)))
      else if efficiency_metric = ''Deposit per Office''
      then np_truediv (deposit_amount r) (of_int (replace_0_1 (no_of_offices r)))
      else np_truediv (deposit_amount r) (of_int (replace_0_1 (no_of_accounts r))))"

text \<open>The per-region table of the comparison tool: sums per region, then three ratios.\<close>

record efficiency_row =
  eff_region :: string
  deposit_per_office :: np_float
  deposit_per_account :: np_float
  accounts_per_office :: np_float

definition efficiency_df :: "dataframe \<Rightarrow> efficiency_row list" where
  "efficiency_df comparison_df =
     map (\<lambda>k. let g = filter (\<lambda>r. region r = k) comparison_df;
                   dep = sum_list (map deposit_amount g);
                   off = sum_list (map no_of_offices g);
                   acc = sum_list (map no_of_accounts g)
               in \<lparr> eff_region = k,
                    deposit_per_office = np_round2 (np_truediv dep (of_int off)),
                    deposit_per_account = np_round2 (np_truediv dep (of_int acc)),
                    accounts_per_office = np_round2 (np_truediv (of_int acc) (of_int off)) \<rparr>)
         (sorted_unique (map region comparison_df))"

section \<open>Correlation matrix (utils/visualizations.py, pages/1 EDA)\<close>

text \<open>
  Modelled from the spec: \<^verbatim>\<open>DataFrame.corr()\<close> is the data-frame library's function and
  is not part of the sources. The specification calls it the pairwise Pearson correlation
  across a fixed set of numeric columns: for two columns, the sum of the products of the
  deviations from the column means, divided by the square root of the product of the two
  sums of squared deviations. A column without variation makes the divisor zero, and the
  entry is \<^verbatim>\<open>nan\<close>.
\<close>

definition deviations :: "real list \<Rightarrow> real list" where
  "deviations xs = map (\<lambda>x. x - sum_list xs / real (length xs)) xs"

text \<open>
  Modelled from the spec: the sum of the products of the deviations of two columns, the
  numerator of the Pearson correlation (part of the library's \<^verbatim>\<open>corr\<close>).
\<close>

definition co_deviation :: "real list \<Rightarrow> real list \<Rightarrow> real" where
  "co_deviation xs ys = sum_list (map2 (*) (deviations xs) (deviations ys))"

text \<open>
  Modelled from the spec: the Pearson correlation of two columns (one entry of the
  library's \<^verbatim>\<open>corr\<close>), \<^verbatim>\<open>nan\<close> when a column has no variation.
\<close>

definition pearson :: "real list \<Rightarrow> real list \<Rightarrow> np_float" where
  "pearson xs ys = np_truediv (co_deviation xs ys) (sqrt (co_deviation xs xs * co_deviation ys ys))"

text \<open>
  Modelled from the spec: the library's \<^verbatim>\<open>corr\<close>, the matrix of the pairwise Pearson
  correlations of the given columns.
\<close>

definition corr :: "real list list \<Rightarrow> np_float list list" where
  "corr columns = map (\<lambda>a. map (\<lambda>b. pearson a b) columns) columns"

text \<open>The numeric columns of the EDA page, and the matrix drawn by the heat map.\<close>

definition numerical_features :: "(deposit_record \<Rightarrow> real) list" where
  "numerical_features =
     [\<lambda>r. of_int (no_of_offices r), \<lambda>r. of_int (no_of_accounts r), deposit_amount]"

definition create_correlation_heatmap ::
  "dataframe \<Rightarrow> (deposit_record \<Rightarrow> real) list \<Rightarrow> np_float list list" where
  "create_correlation_heatmap df columns = corr (map (\<lambda>c. map c df) columns)"

section \<open>The filter contract in the specification's words\<close>

text \<open>
  The specification's reading of a filter selection: a criterion that is absent, empty or
  \<^verbatim>\<open>"All"\<close> constrains nothing; any other criterion must equal the row's value. A row
  matches a selection when all three criteria hold for it.
\<close>

definition criterion_holds :: "string option \<Rightarrow> string \<Rightarrow> bool" where
  "criterion_holds c v = (c = None \<or> c = Some [] \<or> c = Some ''All'' \<or> c = Some v)"

definition row_matches ::
  "string option \<Rightarrow> string option \<Rightarrow> string option \<Rightarrow> deposit_record \<Rightarrow> bool" where
  "row_matches pg rg st r =
     (criterion_holds pg (population_group r) \<and> criterion_holds rg (region r)
      \<and> criterion_holds st (state_name r))"

section \<open>The Top-N contract among groups\<close>

text \<open>
  What a selection of the \<open>n\<close> first groups by a value has to be: as many groups as asked
  for, or all of them when there are fewer; each taken from the groups, none more often
  than it occurs there; in the requested order of the value; and no group left out comes
  before a chosen one in that order.
\<close>

definition selection_of ::
  "bool \<Rightarrow> ('a \<Rightarrow> real) \<Rightarrow> nat \<Rightarrow> 'a list \<Rightarrow> 'a list \<Rightarrow> bool" where
  "selection_of ascending val n groups chosen =
     (length chosen = min n (length groups)
      \<and> mset chosen \<subseteq># mset groups
      \<and> sorted_wrt (in_order ascending val) chosen
      \<and> (\<forall>h \<in> set chosen. \<forall>g \<in> set groups - set chosen. in_order ascending val h g))"

section \<open>The specification's example table\<close>

definition rural_row_1 :: deposit_record where
  "rural_row_1 = \<lparr> state_name = ''Bihar'', district_name = ''Patna'', region = ''East'',
     population_group = ''Rural'', no_of_offices = 2, no_of_accounts = 20,
     deposit_amount = 1000 \<rparr>"

definition rural_row_2 :: deposit_record where
  "rural_row_2 = \<lparr> state_name = ''Odisha'', district_name = ''Puri'', region = ''East'',
     population_group = ''Rural'', no_of_offices = 3, no_of_accounts = 45,
     deposit_amount = 2000 \<rparr>"

definition urban_row :: deposit_record where
  "urban_row = \<lparr> state_name = ''Goa'', district_name = ''Panaji'', region = ''West'',
     population_group = ''Urban'', no_of_offices = 5, no_of_accounts = 100,
     deposit_amount = 9000 \<rparr>"

definition example_table :: dataframe where
  "example_table = [rural_row_1, rural_row_2, urban_row]"

section \<open>Example artifact stores\<close>

text \<open>A store in which every read raises, and one that holds only the example table.\<close>

definition missing_store :: artifact_store where
  "missing_store =
     \<lparr> cleaned_data_csv = Inl (FileNotFoundError ''No such file or directory''),
       featured_data_csv = Inl (FileNotFoundError ''No such file or directory''),
       final_model_comparison_csv = Inl (ParserError ''Error tokenizing data''),
       saved_models = (\<lambda>name. Inl (PermissionError ''Permission denied'')),
       insights_txt = Inl (FileNotFoundError ''No such file or directory'') \<rparr>"

definition example_store :: artifact_store where
  "example_store = missing_store \<lparr> cleaned_data_csv := Inr example_table \<rparr>"

text \<open>
  Disks for the pages: one without the cleaned table, one whose cleaned table was cut off
  after its first row, and one that holds a comparison table of fifteen models but no
  readable saved model and no featured table. The renderers stand for sections that
  complete.
\<close>

definition no_cleaned_disk :: disk where
  "no_cleaned_disk =
     \<lparr> cleaned_file = Missing, featured_file = Missing, comparison_file = Unparsable,
       model_files = (\<lambda>name. Unreadable), insights_file = Intact ''Deposits grow with offices.'' \<rparr>"

definition cut_off_disk :: disk where
  "cut_off_disk = no_cleaned_disk \<lparr> cleaned_file := Misparsed [rural_row_1] \<rparr>"

definition comparison_table :: "model_row list" where
  "comparison_table =
     map (\<lambda>name. \<lparr> model_name = name, test_r2 = 0.9, test_rmse = 1500, test_mae = 500,
                     training_time = 2 \<rparr>)
       [''extra_trees'', ''gradient_boosting'', ''decision_tree'', ''random_forest'',
        ''xgboost'', ''lightgbm'', ''catboost'', ''linear_regression'', ''ridge'', ''lasso'',
        ''elasticnet'', ''knn'', ''adaboost'', ''bayesian_ridge'', ''svr_linear'']"

definition no_model_disk :: disk where
  "no_model_disk = no_cleaned_disk \<lparr> comparison_file := Intact comparison_table \<rparr>"

definition regional_ranking :: "dataframe \<Rightarrow> render" where
  "regional_ranking table = ([Section ''Regional Performance Ranking''], Completed)"

definition models_overview :: "model_row list \<Rightarrow> render" where
  "models_overview table = ([Section ''Models Overview''], Completed)"

definition models_summary :: "model_row list \<Rightarrow> render" where
  "models_summary table = ([Section ''Model Comparison Summary''], Completed)"

text \<open>A table whose only region has offices and deposits but no accounts.\<close>

definition zero_accounts_table :: dataframe where
  "zero_accounts_table =
     [\<lparr> state_name = ''Bihar'', district_name = ''Patna'', region = ''East'',
        population_group = ''Rural'', no_of_offices = 2, no_of_accounts = 0,
        deposit_amount = 1000 \<rparr>]"

text \<open>Three rows of one state, and two rows of two states with equal deposits.\<close>

definition one_state_table :: dataframe where
  "one_state_table =
     [\<lparr> state_name = ''Goa'', district_name = ''Panaji'', region = ''West'',
        population_group = ''Urban'', no_of_offices = 5, no_of_accounts = 100,
        deposit_amount = 9000 \<rparr>,
      \<lparr> state_name = ''Goa'', district_name = ''Margao'', region = ''West'',
        population_group = ''Urban'', no_of_offices = 3, no_of_accounts = 45,
        deposit_amount = 2000 \<rparr>,
      \<lparr> state_name = ''Goa'', district_name = ''Mapusa'', region = ''West'',
        population_group = ''Rural'', no_of_offices = 2, no_of_accounts = 20,
        deposit_amount = 1000 \<rparr>]"

definition tied_table :: dataframe where
  "tied_table =
     [\<lparr> state_name = ''Odisha'', district_name = ''Puri'', region = ''East'',
        population_group = ''Rural'', no_of_offices = 3, no_of_accounts = 45,
        deposit_amount = 2000 \<rparr>,
      \<lparr> state_name = ''Bihar'', district_name = ''Patna'', region = ''East'',
        population_group = ''Rural'', no_of_offices = 2, no_of_accounts = 20,
        deposit_amount = 2000 \<rparr>]"

section \<open>Properties of filter\_data\<close>

lemma truthy_active:
  "(truthy c \<and> c \<noteq> Some ''All'') = (c \<noteq> None \<and> c \<noteq> Some [] \<and> c \<noteq> Some ''All'')"
  by (cases c) (simp_all add: truthy_def)

lemma filter_step:
  "(if truthy c \<and> c \<noteq> Some ''All'' then filter (\<lambda>r. Some (f r) = c) xs else xs)
   = filter (\<lambda>r. criterion_holds c (f r)) xs"
  by (auto simp: truthy_active criterion_holds_def intro: filter_cong)

lemma filter_data_filter:
  "filter_data df pg rg st = filter (row_matches pg rg st) df"
  unfolding filter_data_def Let_def filter_step row_matches_def
  by (simp add: conj_commute conj_left_commute)

text \<open>
  Claim C2. For every table and every selection of population group, region and state,
  \<open>filter_data\<close> returns exactly the rows that match all criteria that constrain
  something (an absent, empty or \<^verbatim>\<open>"All"\<close> criterion constrains nothing). The result is
  made of the rows at the matching positions of the input, taken in increasing position:
  it is obtained from the input by deleting rows, so it is never a superset and keeps the
  relative order of the source.
\<close>

theorem filter_data_exact_subset:
  "filter_data df pg rg st = filter (row_matches pg rg st) df
   \<and> filter_data df pg rg st = nths df {i. i < length df \<and> row_matches pg rg st (df ! i)}
   \<and> subseq (filter_data df pg rg st) df
   \<and> set (filter_data df pg rg st) \<subseteq> set df"
proof -
  have "filter (row_matches pg rg st) df
          = nths df {i. i < length df \<and> row_matches pg rg st (df ! i)}"
    by (rule filter_eq_nths)
  moreover have "subseq (filter (row_matches pg rg st) df) df"
    by (rule subseq_filter_left)
  moreover have "set (filter (row_matches pg rg st) df) \<subseteq> set df"
    by (rule filter_is_subset)
  ultimately show ?thesis
    by (simp only: filter_data_filter simp_thms)
qed

text \<open>
  The specification's example: filtering the three-row table by population group Rural
  yields exactly the first two rows.
\<close>

theorem filter_data_exact_subset_witness:
  "filter_data example_table (Some ''Rural'') None (Some ''All'') = [rural_row_1, rural_row_2]
   \<and> subseq [rural_row_1, rural_row_2] example_table"
  using filter_data_exact_subset [of example_table "Some ''Rural''" None "Some ''All''"]
  by (simp add: row_matches_def criterion_holds_def example_table_def rural_row_1_def
      rural_row_2_def urban_row_def)

section \<open>Properties of get\_summary\_stats\<close>

text \<open>
  The mean never divides by zero: it reports nothing, whatever the column, and its value
  is the quotient of sum and count for a column with values. An unguarded quotient of sum
  and count would report an invalid value on the column without values.
\<close>

lemma nanmean_reports_nothing: "snd (nanmean xs) = []"
  by (simp add: nanmean_def np_truediv_checked_def)

lemma nanmean_value: "fst (nanmean xs) = series_mean xs"
  by (simp add: nanmean_def np_truediv_checked_def series_mean_def)

lemma unguarded_mean_reports:
  "np_truediv_checked (sum_list []) (real (length ([] :: real list))) = (None, [InvalidValue])"
  by (simp add: np_truediv_checked_def)

text \<open>
  Claim C3. On a table without rows \<open>get_summary_stats\<close> returns its dictionary: every
  count and every sum is zero, and the mean deposit is the not-a-number marker that the
  mean gives a column without values. No division by zero stands behind that marker: the
  run reports no division warning, on the empty table and on every other table.
\<close>

theorem get_summary_stats_empty:
  "get_summary_stats [] =
     (\<lparr> total_records = 0, total_deposits = 0, avg_deposits = None, total_offices = 0,
        total_accounts = 0, unique_states = 0, unique_districts = 0 \<rparr>, [])
   \<and> snd (get_summary_stats df) = []"
  by (simp add: get_summary_stats_def nanmean_def nunique_def np_truediv_checked_def)

text \<open>The specification's example: the statistics of the two Rural rows.\<close>

lemma get_summary_stats_example:
  "get_summary_stats (filter_data example_table (Some ''Rural'') None None) =
     (\<lparr> total_records = 2, total_deposits = 3000, avg_deposits = Some 1500, total_offices = 5,
        total_accounts = 65, unique_states = 2, unique_districts = 2 \<rparr>, [])"
  by (simp add: filter_data_def truthy_def get_summary_stats_def nanmean_def nunique_def
      np_truediv_checked_def example_table_def rural_row_1_def rural_row_2_def urban_row_def)

section \<open>Properties of the prediction tool\<close>

lemma similar_example:
  "similar_records example_table ''Rural'' ''East'' = [rural_row_1, rural_row_2]"
  by (simp add: similar_records_def example_table_def rural_row_1_def rural_row_2_def urban_row_def)

lemma similar_example_none:
  "similar_records example_table ''Rural'' ''West'' = []"
  by (simp add: similar_records_def example_table_def rural_row_1_def rural_row_2_def urban_row_def)

lemma np_mul_half:
  "np_mul (np_mul (Some k) q) (Some h) = np_mul (np_mul (Some h) (Some k)) q"
  by (simp add: np_mul_def split: option.splits)

lemma predict_nonempty:
  "similar_records df pg rg \<noteq> [] \<Longrightarrow>
     predict_deposit_amount df pg rg offices accounts =
       PredictionComplete
         (np_add
            (np_mul (np_mul (Some 0.5) (Some (of_int offices)))
               (np_truediv (sum_list (map deposit_amount (similar_records df pg rg)))
                           (of_int (sum_list (map no_of_offices (similar_records df pg rg))))))
            (np_mul (np_mul (Some 0.5) (Some (of_int accounts)))
               (np_truediv (sum_list (map deposit_amount (similar_records df pg rg)))
                           (of_int (sum_list (map no_of_accounts (similar_records df pg rg)))))))"
  by (simp add: predict_deposit_amount_def Let_def np_mul_half)

lemma predict_example:
  "predict_deposit_amount example_table ''Rural'' ''East'' 4 30
     = PredictionComplete (Some (24600 / 13))"
  using predict_nonempty [of example_table "''Rural''" "''East''" 4 30]
  by (simp add: similar_example rural_row_1_def rural_row_2_def np_add_def np_mul_def
      np_truediv_def)

text \<open>
  Claim C1. Whenever the rows matching the chosen population group and region are not
  empty, the prediction is the blend
  \<open>0.5 * offices * (\<Sum>deposits / \<Sum>offices) + 0.5 * accounts * (\<Sum>deposits / \<Sum>accounts)\<close>
  over those rows: first stated in the page's own arithmetic (a zero sum makes the result
  non-finite on both sides), then as a real number when both sums are non-zero. On the
  specification's two Rural/East rows with 4 offices and 30 accounts the estimate is
  \<open>24600 / 13\<close>, within 0.05 of 1892.3.
\<close>

theorem predicted_deposit_formula:
  "(similar_records df pg rg \<noteq> [] \<longrightarrow>
      predict_deposit_amount df pg rg offices accounts =
        PredictionComplete
          (np_add
             (np_mul (np_mul (Some 0.5) (Some (of_int offices)))
                (np_truediv (sum_list (map deposit_amount (similar_records df pg rg)))
                            (of_int (sum_list (map no_of_offices (similar_records df pg rg))))))
             (np_mul (np_mul (Some 0.5) (Some (of_int accounts)))
                (np_truediv (sum_list (map deposit_amount (similar_records df pg rg)))
                            (of_int (sum_list (map no_of_accounts (similar_records df pg rg))))))))
   \<and> (similar_records df pg rg \<noteq> []
        \<and> sum_list (map no_of_offices (similar_records df pg rg)) \<noteq> 0
        \<and> sum_list (map no_of_accounts (similar_records df pg rg)) \<noteq> 0 \<longrightarrow>
      predict_deposit_amount df pg rg offices accounts =
        PredictionComplete
          (Some (0.5 * of_int offices
                   * (sum_list (map deposit_amount (similar_records df pg rg))
                      / of_int (sum_list (map no_of_offices (similar_records df pg rg))))
                 + 0.5 * of_int accounts
                   * (sum_list (map deposit_amount (similar_records df pg rg))
                      / of_int (sum_list (map no_of_accounts (similar_records df pg rg)))))))
   \<and> predict_deposit_amount example_table ''Rural'' ''East'' 4 30
        = PredictionComplete (Some (24600 / 13))
   \<and> \<bar>24600 / 13 - 1892.3\<bar> < (0.05 :: real)"
proof -
  have finite_case: "similar_records df pg rg \<noteq> []
        \<and> sum_list (map no_of_offices (similar_records df pg rg)) \<noteq> 0
        \<and> sum_list (map no_of_accounts (similar_records df pg rg)) \<noteq> 0 \<longrightarrow>
      predict_deposit_amount df pg rg offices accounts =
        PredictionComplete
          (Some (0.5 * of_int offices
                   * (sum_list (map deposit_amount (similar_records df pg rg))
                      / of_int (sum_list (map no_of_offices (similar_records df pg rg))))
                 + 0.5 * of_int accounts
                   * (sum_list (map deposit_amount (similar_records df pg rg))
                      / of_int (sum_list (map no_of_accounts (similar_records df pg rg))))))"
    by (simp add: predict_nonempty np_add_def np_mul_def np_truediv_def)
  have close: "\<bar>24600 / 13 - 1892.3\<bar> < (0.05 :: real)"
    by simp
  have general: "similar_records df pg rg \<noteq> [] \<longrightarrow>
      predict_deposit_amount df pg rg offices accounts =
        PredictionComplete
          (np_add
             (np_mul (np_mul (Some 0.5) (Some (of_int offices)))
                (np_truediv (sum_list (map deposit_amount (similar_records df pg rg)))
                            (of_int (sum_list (map no_of_offices (similar_records df pg rg))))))
             (np_mul (np_mul (Some 0.5) (Some (of_int accounts)))
                (np_truediv (sum_list (map deposit_amount (similar_records df pg rg)))
                            (of_int (sum_list (map no_of_accounts (similar_records df pg rg)))))))"
    using predict_nonempty [of df pg rg offices accounts] by blast
  show ?thesis
    by (intro conjI general finite_case predict_example close)
qed

text \<open>The example again, through the general formula.\<close>

theorem predicted_deposit_formula_witness:
  "similar_records example_table ''Rural'' ''East'' \<noteq> []
   \<and> predict_deposit_amount example_table ''Rural'' ''East'' 4 30
       = PredictionComplete (Some (0.5 * 4 * (3000 / 5) + 0.5 * 30 * (3000 / 65)))"
  using predicted_deposit_formula [of example_table "''Rural''" "''East''" 4 30]
  by (simp add: similar_example rural_row_1_def rural_row_2_def np_add_def np_mul_def
      np_truediv_def)

text \<open>
  Claim C6. If no row matches both the chosen population group and the chosen region, the
  prediction tool shows the explicit "no similar records" error; the result carries no
  number, and no division has been evaluated to produce it.
\<close>

theorem no_similar_records:
  "similar_records df pg rg = [] \<Longrightarrow>
     predict_deposit_amount df pg rg offices accounts =
       NoSimilarRecords
         ''No similar records found for this combination. Please try different parameters.''"
  by (simp add: predict_deposit_amount_def)

text \<open>On the example table no Rural row lies in the West.\<close>

theorem no_similar_records_witness:
  "similar_records example_table ''Rural'' ''West'' = []
   \<and> predict_deposit_amount example_table ''Rural'' ''West'' 4 30 =
       NoSimilarRecords
         ''No similar records found for this combination. Please try different parameters.''"
  using no_similar_records [of example_table "''Rural''" "''West''" 4 30]
  by (simp add: similar_example_none)

text \<open>
  Claim C10. The scenario comparison predicts \<open>offices * (\<Sum>deposits / \<Sum>offices)\<close> over
  the rows matching the scenario's population group and region, whatever the account count
  is; when no row matches, it shows the mean deposit of the whole table as the prediction,
  as two metrics and without any error message.
\<close>

theorem s_prediction_scenario:
  "(similar_records df g r \<noteq> [] \<longrightarrow>
      s_prediction df n a g r =
        np_mul (Some (of_int n))
          (np_truediv (sum_list (map deposit_amount (similar_records df g r)))
                      (of_int (sum_list (map no_of_offices (similar_records df g r))))))
   \<and> (similar_records df g r \<noteq> [] \<and> sum_list (map no_of_offices (similar_records df g r)) \<noteq> 0 \<longrightarrow>
      s_prediction df n a g r =
        Some (of_int n * (sum_list (map deposit_amount (similar_records df g r))
                          / of_int (sum_list (map no_of_offices (similar_records df g r))))))
   \<and> s_prediction df n a g r = s_prediction df n a' g r
   \<and> (similar_records df g r = [] \<longrightarrow>
        s_prediction df n a g r = series_mean (map deposit_amount df)
        \<and> scenario_metrics df n a g r =
            [StMetric ''Predicted Deposit'' (series_mean (map deposit_amount df)),
             StMetric ''Per Office'' (np_div (series_mean (map deposit_amount df)) (of_int n))])
   \<and> (similar_records df g r = [] \<and> df \<noteq> [] \<longrightarrow>
        s_prediction df n a g r = Some (sum_list (map deposit_amount df) / real (length df)))"
  by (auto simp: s_prediction_def scenario_metrics_def Let_def np_mul_def np_truediv_def series_mean_def)

text \<open>Both branches on the example table.\<close>

lemma series_mean_example: "series_mean (map deposit_amount example_table) = Some 4000"
  by (simp add: series_mean_def example_table_def rural_row_1_def rural_row_2_def urban_row_def)

theorem s_prediction_scenario_witness:
  "similar_records example_table ''Rural'' ''East'' \<noteq> []
   \<and> s_prediction example_table 4 30 ''Rural'' ''East'' = Some 2400
   \<and> similar_records example_table ''Rural'' ''West'' = []
   \<and> s_prediction example_table 4 30 ''Rural'' ''West'' = Some 4000"
  using s_prediction_scenario [of example_table "''Rural''" "''East''" 4 30]
        s_prediction_scenario [of example_table "''Rural''" "''West''" 4 30]
  by (simp add: similar_example similar_example_none rural_row_1_def rural_row_2_def
      series_mean_example np_mul_def np_truediv_def)

section \<open>Properties of the category enumerations\<close>

lemma not_sorted_groups: "\<not> sorted [''Metropolitan'', ''Urban'', ''Semi-urban'', ''Rural'']"
  by simp

text \<open>
  Claim C9. \<open>get_population_groups\<close> returns the fixed list Metropolitan, Urban,
  Semi-urban, Rural for every store: the list is not in alphabetical order and does not
  depend on the table, loaded or not. The regions, states and districts are the sorted
  distinct values of the loaded table, and empty when the load fails.
\<close>

theorem population_groups_fixed:
  "get_population_groups fs = [''Metropolitan'', ''Urban'', ''Semi-urban'', ''Rural'']
   \<and> \<not> sorted (get_population_groups fs)
   \<and> (\<forall>df. cleaned_data_csv fs = Inr df \<longrightarrow>
         get_regions fs = sorted_unique (map region df)
         \<and> get_states fs = sorted_unique (map state_name df)
         \<and> get_districts fs None = sorted_unique (map district_name df))
   \<and> (\<forall>e. cleaned_data_csv fs = Inl e \<longrightarrow>
         get_regions fs = [] \<and> get_states fs = [] \<and> get_districts fs None = [])"
  by (simp add: get_population_groups_def get_regions_def get_states_def get_districts_def
      load_cleaned_data_def truthy_def)

text \<open>
  A table whose groups are only Rural and Urban, and a store without a table: the
  population groups are the same four, the regions follow the data.
\<close>

theorem population_groups_fixed_witness:
  "get_population_groups example_store = [''Metropolitan'', ''Urban'', ''Semi-urban'', ''Rural'']
   \<and> get_regions example_store = [''East'', ''West'']
   \<and> get_population_groups missing_store = [''Metropolitan'', ''Urban'', ''Semi-urban'', ''Rural'']
   \<and> get_regions missing_store = []"
  using population_groups_fixed [of example_store] population_groups_fixed [of missing_store]
  by (simp add: example_store_def missing_store_def sorted_unique_def example_table_def
      rural_row_1_def rural_row_2_def urban_row_def)

section \<open>Properties of the loaders and of the pages that call them\<close>

text \<open>A read raises exactly for a missing, an unreadable and an unparsable file.\<close>

lemma read_file_raises:
  "(\<exists>e. read_file f = Inl e) = (f = Missing \<or> f = Unreadable \<or> f = Unparsable)"
  by (cases f) (simp_all add: read_file_def)

lemma cleaned_load_fails:
  "cleaned_data_csv fs = Inl e \<Longrightarrow>
     load_cleaned_data fs = (None, [StError (''Error loading cleaned data: '' @ exception_message e)])
     \<and> eda_page body fs =
         ([StError (''Error loading cleaned data: '' @ exception_message e),
           StError ''Unable to load data. Please check if the data files exist in the correct directory.''],
          Stopped)
     \<and> geographic_page body fs =
         ([StError (''Error loading cleaned data: '' @ exception_message e),
           StError ''Unable to load data. Please check if the data file exists.''], Stopped)
     \<and> predictions_page body fs =
         ([StError (''Error loading cleaned data: '' @ exception_message e),
           StError ''Unable to load reference data.''], Stopped)"
  by (simp add: load_cleaned_data_def eda_page_def geographic_page_def predictions_page_def)

lemma featured_load_fails:
  "featured_data_csv fs = Inl e \<Longrightarrow>
     load_featured_data fs = (None, [StError (''Error loading featured data: '' @ exception_message e)])
     \<and> clustering_page body fs =
         ([StError (''Error loading featured data: '' @ exception_message e),
           StError ''Unable to load featured data. Please check if the file exists.''], Stopped)
     \<and> interpretability_page body fs =
         ([StError (''Error loading featured data: '' @ exception_message e),
           StError ''Unable to load featured data. Please check if the file exists.''], Stopped)"
  by (simp add: load_featured_data_def clustering_page_def interpretability_page_def)

lemma comparison_load_fails:
  "final_model_comparison_csv fs = Inl e \<Longrightarrow>
     load_model_comparison fs = (None, [StError (''Error loading model comparison: '' @ exception_message e)])
     \<and> models_page overview summary fs =
         ([StError (''Error loading model comparison: '' @ exception_message e),
           StError ''Unable to load model comparison data.''], Stopped)"
  by (simp add: load_model_comparison_def models_page_def)

lemma model_load_fails:
  "saved_models fs name = Inl e \<Longrightarrow>
     load_best_model fs name =
       (None, [StError (''Error loading model '' @ name @ '': '' @ exception_message e)])"
  by (simp add: load_best_model_def)

text \<open>
  Without the cleaned table the Insights page draws everything but the regional ranking,
  down to its conclusion, whatever the ranking would have done.
\<close>

lemma insights_without_table:
  "cleaned_data_csv fs = Inl e \<Longrightarrow>
     insights_page regional fs =
       (snd (load_insights_narrative fs)
          @ [StError (''Error loading cleaned data: '' @ exception_message e)]
          @ insights_opening @ insights_middle
          @ insights_narrative (fst (load_insights_narrative fs)) @ [StSuccess ''Conclusion''],
        Completed)"
  by (simp add: insights_page_def load_cleaned_data_def then_run_def split: prod.splits)

text \<open>
  Once the overview of the Models page has completed, a failed load of the saved model or
  of the featured table only leaves out the analysis section: the loaders' messages are
  shown and the summary is drawn. With both loaded, the section stands between them.
\<close>

lemma models_without_model:
  assumes "final_model_comparison_csv fs = Inr table" and "overview table = (drawn, Completed)"
    and "saved_models fs ''extra_trees'' = Inl e \<or> featured_data_csv fs = Inl e'"
  shows "models_page overview summary fs =
           (drawn @ snd (load_best_model fs ''extra_trees'') @ snd (load_featured_data fs)
              @ fst (summary table),
            snd (summary table))"
proof -
  have skip: "fst (load_best_model fs ''extra_trees'') = None
                \<or> fst (load_featured_data fs) = None"
    using assms(3) by (auto simp: load_best_model_def load_featured_data_def)
  show ?thesis
    using assms(1,2) skip
    by (auto simp: models_page_def load_model_comparison_def then_run_def split: prod.splits)
qed

lemma models_with_model:
  assumes "final_model_comparison_csv fs = Inr table" and "overview table = (drawn, Completed)"
    and "saved_models fs ''extra_trees'' = Inr model" and "featured_data_csv fs = Inr featured"
  shows "models_page overview summary fs =
           (drawn @ [Section ''Model Predictions Analysis'',
                     StInfo ''Loading predictions from the trained Extra Trees model...'']
              @ fst (summary table),
            snd (summary table))"
  using assms
  by (simp add: models_page_def load_model_comparison_def load_best_model_def
      load_featured_data_def then_run_def)

text \<open>
  Claim C4 as stated does not hold, on two counts. A failed load does not always halt the
  calling page: without the cleaned table the Insights page runs to its conclusion, and
  without a readable saved model the Models page, holding a comparison table of fifteen
  models, runs to its summary. And a malformed file need not fail to load: a cleaned table
  cut off after its first row is returned as loaded, without any message.
\<close>

theorem load_failure_without_halt:
  "cleaned_file no_cleaned_disk = Missing
   \<and> load_cleaned_data (read_all no_cleaned_disk)
       = (None, [StError ''Error loading cleaned data: No such file or directory''])
   \<and> snd (insights_page regional_ranking (read_all no_cleaned_disk)) = Completed
   \<and> last (fst (insights_page regional_ranking (read_all no_cleaned_disk)))
       = StSuccess ''Conclusion''
   \<and> model_files no_model_disk ''extra_trees'' = Unreadable
   \<and> fst (load_best_model (read_all no_model_disk) ''extra_trees'') = None
   \<and> snd (models_page models_overview models_summary (read_all no_model_disk)) = Completed
   \<and> last (fst (models_page models_overview models_summary (read_all no_model_disk)))
       = Section ''Model Comparison Summary''
   \<and> cleaned_file cut_off_disk = Misparsed [rural_row_1]
   \<and> load_cleaned_data (read_all cut_off_disk) = (Some [rural_row_1], [])"
proof -
  have cleaned: "cleaned_data_csv (read_all no_cleaned_disk)
                   = Inl (FileNotFoundError ''No such file or directory'')"
    by (simp add: read_all_def no_cleaned_disk_def read_file_def)
  have comparison: "final_model_comparison_csv (read_all no_model_disk) = Inr comparison_table"
    by (simp add: read_all_def no_model_disk_def no_cleaned_disk_def read_file_def)
  have model: "saved_models (read_all no_model_disk) ''extra_trees''
                 = Inl (PermissionError ''Permission denied'')"
    by (simp add: read_all_def no_model_disk_def no_cleaned_disk_def read_file_def)
  have overview: "models_overview comparison_table = ([Section ''Models Overview''], Completed)"
    by (simp add: models_overview_def)
  have models: "models_page models_overview models_summary (read_all no_model_disk) =
      ([Section ''Models Overview''] @ snd (load_best_model (read_all no_model_disk) ''extra_trees'')
         @ snd (load_featured_data (read_all no_model_disk)) @ fst (models_summary comparison_table),
       snd (models_summary comparison_table))"
    using models_without_model
            [of "read_all no_model_disk" comparison_table models_overview
                "[Section ''Models Overview'']" "PermissionError ''Permission denied''"
                "PermissionError ''Permission denied''" models_summary]
          comparison overview model
    by blast
  have cut: "load_cleaned_data (read_all cut_off_disk) = (Some [rural_row_1], [])"
    by (simp add: load_cleaned_data_def read_all_def cut_off_disk_def read_file_def)
  have insights: "insights_page regional_ranking (read_all no_cleaned_disk) =
      (snd (load_insights_narrative (read_all no_cleaned_disk))
         @ [StError (''Error loading cleaned data: ''
                     @ exception_message (FileNotFoundError ''No such file or directory''))]
         @ insights_opening @ insights_middle
         @ insights_narrative (fst (load_insights_narrative (read_all no_cleaned_disk)))
         @ [StSuccess ''Conclusion''],
       Completed)"
    by (rule insights_without_table [OF cleaned])
  have c1: "cleaned_file no_cleaned_disk = Missing"
    by (simp add: no_cleaned_disk_def)
  have c2: "load_cleaned_data (read_all no_cleaned_disk)
              = (None, [StError ''Error loading cleaned data: No such file or directory''])"
    using cleaned_load_fails [OF cleaned, of regional_ranking] by simp
  have c3: "snd (insights_page regional_ranking (read_all no_cleaned_disk)) = Completed"
    by (simp add: insights)
  have c4: "last (fst (insights_page regional_ranking (read_all no_cleaned_disk)))
              = StSuccess ''Conclusion''"
    by (simp add: insights)
  have c5: "model_files no_model_disk ''extra_trees'' = Unreadable"
    by (simp add: no_model_disk_def no_cleaned_disk_def)
  have c6: "fst (load_best_model (read_all no_model_disk) ''extra_trees'') = None"
    using model_load_fails [OF model] by simp
  have c7: "snd (models_page models_overview models_summary (read_all no_model_disk)) = Completed"
    by (simp add: models models_summary_def)
  have c8: "last (fst (models_page models_overview models_summary (read_all no_model_disk)))
              = Section ''Model Comparison Summary''"
    by (simp add: models models_summary_def)
  have c9: "cleaned_file cut_off_disk = Misparsed [rural_row_1]"
    by (simp add: cut_off_disk_def)
  show ?thesis
    by (intro conjI c1 c2 c3 c4 c5 c6 c7 c8 c9 cut)
qed

text \<open>
  Claim C4, amended. When the read behind a table load or a model load raises, as it does
  for a missing, an unreadable and an unparsable file, the loader raises nothing: it
  returns \<^verbatim>\<open>None\<close> and shows one error message. A read that returns, be it of a
  malformed file that the reader accepts, is passed on as loaded, without a message. After
  a failed load the pages that draw everything from the value show their own message and
  stop before anything else is run (EDA, Geographic and Predictions for the cleaned
  table; Clustering and Interpretability for the featured table; Models for the
  comparison table). The Insights page, without the cleaned table,
  and the Models page, without the saved model or the featured table, do not halt: they
  show the loader's message, leave out the one section that needs the value and run the
  rest of the script, so that the failed load adds no fault.
\<close>

theorem load_failure_handled:
  "((\<exists>x. read_file f = Inl x) = (f = Missing \<or> f = Unreadable \<or> f = Unparsable))
   \<and> (cleaned_data_csv fs = Inl e \<longrightarrow>
        load_cleaned_data fs
          = (None, [StError (''Error loading cleaned data: '' @ exception_message e)])
        \<and> eda_page body fs =
            ([StError (''Error loading cleaned data: '' @ exception_message e),
              StError ''Unable to load data. Please check if the data files exist in the correct directory.''],
             Stopped)
        \<and> geographic_page body fs =
            ([StError (''Error loading cleaned data: '' @ exception_message e),
              StError ''Unable to load data. Please check if the data file exists.''], Stopped)
        \<and> predictions_page body fs =
            ([StError (''Error loading cleaned data: '' @ exception_message e),
              StError ''Unable to load reference data.''], Stopped)
        \<and> insights_page body fs =
            (snd (load_insights_narrative fs)
               @ [StError (''Error loading cleaned data: '' @ exception_message e)]
               @ insights_opening @ insights_middle
               @ insights_narrative (fst (load_insights_narrative fs))
               @ [StSuccess ''Conclusion''],
             Completed))
   \<and> (featured_data_csv fs = Inl e \<longrightarrow>
        load_featured_data fs
          = (None, [StError (''Error loading featured data: '' @ exception_message e)])
        \<and> clustering_page body fs =
            ([StError (''Error loading featured data: '' @ exception_message e),
              StError ''Unable to load featured data. Please check if the file exists.''], Stopped)
        \<and> interpretability_page body fs =
            ([StError (''Error loading featured data: '' @ exception_message e),
              StError ''Unable to load featured data. Please check if the file exists.''], Stopped))
   \<and> (final_model_comparison_csv fs = Inl e \<longrightarrow>
        load_model_comparison fs
          = (None, [StError (''Error loading model comparison: '' @ exception_message e)])
        \<and> models_page overview summary fs =
            ([StError (''Error loading model comparison: '' @ exception_message e),
              StError ''Unable to load model comparison data.''], Stopped))
   \<and> (saved_models fs name = Inl e \<longrightarrow>
        load_best_model fs name =
          (None, [StError (''Error loading model '' @ name @ '': '' @ exception_message e)]))
   \<and> (final_model_comparison_csv fs = Inr table \<and> overview table = (drawn, Completed)
        \<and> (saved_models fs ''extra_trees'' = Inl e \<or> featured_data_csv fs = Inl e') \<longrightarrow>
        models_page overview summary fs =
          (drawn @ snd (load_best_model fs ''extra_trees'') @ snd (load_featured_data fs)
             @ fst (summary table),
           snd (summary table)))
   \<and> read_file (Misparsed content) = Inr content
   \<and> (cleaned_data_csv fs = Inr loaded \<longrightarrow> load_cleaned_data fs = (Some loaded, []))
   \<and> (featured_data_csv fs = Inr loaded \<longrightarrow> load_featured_data fs = (Some loaded, []))
   \<and> (final_model_comparison_csv fs = Inr table \<longrightarrow>
        load_model_comparison fs = (Some table, []))
   \<and> (saved_models fs name = Inr model \<longrightarrow> load_best_model fs name = (Some model, []))"
proof -
  have a: "cleaned_data_csv fs = Inl e \<longrightarrow>
        load_cleaned_data fs
          = (None, [StError (''Error loading cleaned data: '' @ exception_message e)])
        \<and> eda_page body fs =
            ([StError (''Error loading cleaned data: '' @ exception_message e),
              StError ''Unable to load data. Please check if the data files exist in the correct directory.''],
             Stopped)
        \<and> geographic_page body fs =
            ([StError (''Error loading cleaned data: '' @ exception_message e),
              StError ''Unable to load data. Please check if the data file exists.''], Stopped)
        \<and> predictions_page body fs =
            ([StError (''Error loading cleaned data: '' @ exception_message e),
              StError ''Unable to load reference data.''], Stopped)
        \<and> insights_page body fs =
            (snd (load_insights_narrative fs)
               @ [StError (''Error loading cleaned data: '' @ exception_message e)]
               @ insights_opening @ insights_middle
               @ insights_narrative (fst (load_insights_narrative fs))
               @ [StSuccess ''Conclusion''],
             Completed)"
    using cleaned_load_fails [of fs e body] insights_without_table [of fs e body] by blast
  have b: "featured_data_csv fs = Inl e \<longrightarrow>
        load_featured_data fs
          = (None, [StError (''Error loading featured data: '' @ exception_message e)])
        \<and> clustering_page body fs =
            ([StError (''Error loading featured data: '' @ exception_message e),
              StError ''Unable to load featured data. Please check if the file exists.''], Stopped)
        \<and> interpretability_page body fs =
            ([StError (''Error loading featured data: '' @ exception_message e),
              StError ''Unable to load featured data. Please check if the file exists.''], Stopped)"
    using featured_load_fails [of fs e body] by blast
  have c: "final_model_comparison_csv fs = Inl e \<longrightarrow>
        load_model_comparison fs
          = (None, [StError (''Error loading model comparison: '' @ exception_message e)])
        \<and> models_page overview summary fs =
            ([StError (''Error loading model comparison: '' @ exception_message e),
              StError ''Unable to load model comparison data.''], Stopped)"
    using comparison_load_fails [of fs e overview summary] by blast
  have d: "saved_models fs name = Inl e \<longrightarrow>
        load_best_model fs name =
          (None, [StError (''Error loading model '' @ name @ '': '' @ exception_message e)])"
    using model_load_fails [of fs name e] by blast
  have f: "final_model_comparison_csv fs = Inr table \<and> overview table = (drawn, Completed)
        \<and> (saved_models fs ''extra_trees'' = Inl e \<or> featured_data_csv fs = Inl e') \<longrightarrow>
        models_page overview summary fs =
          (drawn @ snd (load_best_model fs ''extra_trees'') @ snd (load_featured_data fs)
             @ fst (summary table),
           snd (summary table))"
    using models_without_model [of fs table overview drawn e e' summary] by blast
  have g: "read_file (Misparsed content) = Inr content"
    by (simp add: read_file_def)
  have h: "cleaned_data_csv fs = Inr loaded \<longrightarrow> load_cleaned_data fs = (Some loaded, [])"
    "featured_data_csv fs = Inr loaded \<longrightarrow> load_featured_data fs = (Some loaded, [])"
    "final_model_comparison_csv fs = Inr table \<longrightarrow> load_model_comparison fs = (Some table, [])"
    "saved_models fs name = Inr model \<longrightarrow> load_best_model fs name = (Some model, [])"
    by (simp_all add: load_cleaned_data_def load_featured_data_def load_model_comparison_def
        load_best_model_def)
  show ?thesis
    by (intro conjI read_file_raises a b c d f g h)
qed

text \<open>
  On the disk without the cleaned table, and on the disk with fifteen models and no
  readable saved model.
\<close>

theorem load_failure_handled_witness:
  "read_file (cleaned_file no_cleaned_disk) = Inl (FileNotFoundError ''No such file or directory'')
   \<and> cleaned_data_csv (read_all no_cleaned_disk)
       = Inl (FileNotFoundError ''No such file or directory'')
   \<and> fst (load_cleaned_data (read_all no_cleaned_disk)) = None
   \<and> snd (eda_page regional_ranking (read_all no_cleaned_disk)) = Stopped
   \<and> snd (insights_page regional_ranking (read_all no_cleaned_disk)) = Completed
   \<and> final_model_comparison_csv (read_all no_model_disk) = Inr comparison_table
   \<and> models_overview comparison_table = ([Section ''Models Overview''], Completed)
   \<and> saved_models (read_all no_model_disk) ''extra_trees''
       = Inl (PermissionError ''Permission denied'')
   \<and> models_page models_overview models_summary (read_all no_model_disk) =
       ([Section ''Models Overview'',
         StError ''Error loading model extra_trees: Permission denied'',
         StError ''Error loading featured data: No such file or directory'',
         Section ''Model Comparison Summary''], Completed)"
proof -
  have cleaned: "cleaned_data_csv (read_all no_cleaned_disk)
                   = Inl (FileNotFoundError ''No such file or directory'')"
    by (simp add: read_all_def no_cleaned_disk_def read_file_def)
  have comparison: "final_model_comparison_csv (read_all no_model_disk) = Inr comparison_table"
    by (simp add: read_all_def no_model_disk_def no_cleaned_disk_def read_file_def)
  have model: "saved_models (read_all no_model_disk) ''extra_trees''
                 = Inl (PermissionError ''Permission denied'')"
    by (simp add: read_all_def no_model_disk_def no_cleaned_disk_def read_file_def)
  have featured: "load_featured_data (read_all no_model_disk)
                    = (None, [StError ''Error loading featured data: No such file or directory''])"
    by (simp add: load_featured_data_def read_all_def no_model_disk_def no_cleaned_disk_def
        read_file_def)
  have overview: "models_overview comparison_table = ([Section ''Models Overview''], Completed)"
    by (simp add: models_overview_def)
  from load_failure_handled
         [of "cleaned_file no_cleaned_disk" "read_all no_cleaned_disk"
             "FileNotFoundError ''No such file or directory''" regional_ranking]
       load_failure_handled
         [of "cleaned_file no_cleaned_disk" "read_all no_model_disk"
             "PermissionError ''Permission denied''" regional_ranking
             models_overview models_summary "''extra_trees''" comparison_table
             "[Section ''Models Overview'']"]
       cleaned comparison model featured overview
  show ?thesis
    by (simp add: models_summary_def) (simp add: no_cleaned_disk_def read_file_def)
qed

section \<open>Properties of the ratio metrics\<close>

lemma round_half_even_of_int: "round_half_even (of_int k) = k"
  by (simp add: round_half_even_def)

text \<open>
  Claim C7 says that every ratio metric replaces a zero count by one, so that every ratio
  is a defined value. The per-region table of the comparison tool divides the sums as they
  are: for a region whose accounts sum to zero, its deposit per account is not a finite
  number.
\<close>

theorem efficiency_df_unguarded:
  "efficiency_df zero_accounts_table =
     [\<lparr> eff_region = ''East'', deposit_per_office = Some 500,
        deposit_per_account = None, accounts_per_office = Some 0 \<rparr>]"
proof -
  have "round_half_even 50000 = 50000"
    using round_half_even_of_int [of 50000] by simp
  moreover have "round_half_even 0 = 0"
    by (simp add: round_half_even_def)
  ultimately show ?thesis
    by (simp add: efficiency_df_def zero_accounts_table_def sorted_unique_def np_round2_def
        np_truediv_def)
qed

text \<open>
  The per-row metric column does replace a zero count by one, and is defined for every
  row and every choice of metric; on the row above it yields 1000 per account.
\<close>

lemma metric_guarded: "\<exists>v. metric efficiency_metric r = Some v"
  by (simp add: metric_def np_truediv_def replace_0_1_def)

lemma metric_zero_accounts:
  "metric ''Deposit per Account'' (hd zero_accounts_table) = Some 1000"
  by (simp add: metric_def np_truediv_def replace_0_1_def zero_accounts_table_def)

section \<open>Properties of the correlation matrix\<close>

lemma co_deviation_commute: "co_deviation xs ys = co_deviation ys xs"
proof -
  have "map2 (*) a b = map2 (*) b a" for a b :: "real list"
    by (induction a b rule: list_induct2') (simp_all add: mult.commute)
  then show ?thesis by (simp add: co_deviation_def)
qed

lemma pearson_commute: "pearson xs ys = pearson ys xs"
  by (simp add: pearson_def co_deviation_commute [of xs ys] mult.commute)

lemma sum_squares_nonneg: "0 \<le> sum_list (map2 (*) ds ds)" for ds :: "real list"
  by (induction ds) simp_all

lemma pearson_self: "co_deviation xs xs \<noteq> 0 \<Longrightarrow> pearson xs xs = Some 1"
proof -
  assume nz: "co_deviation xs xs \<noteq> 0"
  have "0 \<le> co_deviation xs xs"
    by (simp add: co_deviation_def sum_squares_nonneg)
  with nz have "sqrt (co_deviation xs xs * co_deviation xs xs) = co_deviation xs xs"
    by simp
  with nz show ?thesis
    by (simp add: pearson_def np_truediv_def)
qed

lemma heatmap_entry:
  "i < length columns \<Longrightarrow> j < length columns \<Longrightarrow>
     create_correlation_heatmap df columns ! i ! j
       = pearson (map (columns ! i) df) (map (columns ! j) df)"
  by (simp add: create_correlation_heatmap_def corr_def)

text \<open>
  Claim C8. On a table in which every chosen numeric column varies, the correlation matrix
  is symmetric, and each entry on its diagonal is 1.
\<close>

theorem correlation_symmetric_unit_diagonal:
  assumes "\<forall>c \<in> set columns. co_deviation (map c df) (map c df) \<noteq> 0"
    and "i < length columns" and "j < length columns"
  shows "create_correlation_heatmap df columns ! i ! j
           = create_correlation_heatmap df columns ! j ! i
         \<and> create_correlation_heatmap df columns ! i ! i = Some 1"
proof -
  from assms have "co_deviation (map (columns ! i) df) (map (columns ! i) df) \<noteq> 0"
    by simp
  then show ?thesis
    using assms(2,3) by (simp add: heatmap_entry pearson_self pearson_commute)
qed

text \<open>The three numeric columns of the example table all vary.\<close>

lemma example_columns:
  "map (\<lambda>c. map c example_table) numerical_features =
     [[2, 3, 5], [20, 45, 100], [1000, 2000, 9000]]"
  by (simp add: numerical_features_def example_table_def rural_row_1_def rural_row_2_def urban_row_def)

lemma example_nondegenerate:
  "\<forall>c \<in> set numerical_features. co_deviation (map c example_table) (map c example_table) \<noteq> 0"
  by (simp add: numerical_features_def example_table_def rural_row_1_def rural_row_2_def
      urban_row_def co_deviation_def deviations_def)

theorem correlation_symmetric_unit_diagonal_witness:
  "list_all (\<lambda>c. co_deviation (map c example_table) (map c example_table) \<noteq> 0)
     numerical_features
   \<and> (0::nat) < length numerical_features \<and> (2::nat) < length numerical_features
   \<and> create_correlation_heatmap example_table numerical_features ! 0 ! 2
       = create_correlation_heatmap example_table numerical_features ! 2 ! 0
   \<and> create_correlation_heatmap example_table numerical_features ! 0 ! 0 = Some 1"
proof -
  have len: "(0::nat) < length numerical_features" "(2::nat) < length numerical_features"
    by (simp_all add: numerical_features_def)
  from correlation_symmetric_unit_diagonal [OF example_nondegenerate len] example_nondegenerate len
  show ?thesis by (simp add: list_all_iff)
qed

section \<open>Properties of the Top-N selections\<close>

lemma length_head: "0 \<le> n \<Longrightarrow> length (head n xs) = min (nat n) (length xs)"
  by (simp add: head_def min.commute)

lemma set_head: "set (head n xs) \<subseteq> set xs"
  by (simp add: head_def set_take_subset)

lemma sorted_wrt_head: "sorted_wrt P xs \<Longrightarrow> sorted_wrt P (head n xs)"
  by (simp add: head_def)

lemma sorter_mset: "sorts_by_value sv \<Longrightarrow> mset (sv asc val xs) = mset xs"
  by (simp add: sorts_by_value_def)

lemma sorter_sorted: "sorts_by_value sv \<Longrightarrow> sorted_wrt (in_order asc val) (sv asc val xs)"
  by (simp add: sorts_by_value_def)

lemma sorter_length: "sorts_by_value sv \<Longrightarrow> length (sv asc val xs) = length xs"
  using sorter_mset [of sv asc val xs] by (metis size_mset)

lemma sorter_set: "sorts_by_value sv \<Longrightarrow> set (sv asc val xs) = set xs"
  using sorter_mset [of sv asc val xs] by (metis set_mset_mset)

lemma length_sorted_unique: "length (sorted_unique ks) = card (set ks)"
  by (simp add: sorted_unique_def length_remdups_card_conv)

lemma set_sorted_unique: "set (sorted_unique ks) = set ks"
  by (simp add: sorted_unique_def)

lemma length_groupby_sum: "length (groupby_sum key df) = card (key ` set df)"
  by (simp add: groupby_sum_def length_sorted_unique)

lemma set_groupby_sum:
  "set (groupby_sum key df) =
     (\<lambda>k. (k, sum_list (map deposit_amount (filter (\<lambda>r. key r = k) df)))) ` key ` set df"
  by (simp add: groupby_sum_def set_sorted_unique)

lemma length_district_totals: "length (district_totals df) = card (district_name ` set df)"
  by (simp add: district_totals_def length_sorted_unique)

lemma in_order_ascending: "in_order True val = (\<lambda>a b. val a \<le> val b)"
  by (intro ext) (simp add: in_order_def)

lemma in_order_descending: "in_order False val = (\<lambda>a b. val b \<le> val a)"
  by (intro ext) (simp add: in_order_def)

text \<open>The stable routine is one of the admissible sorting routines.\<close>

lemma stable_sort_values_sorts: "sorts_by_value stable_sort_values"
proof -
  have asc: "sorted_wrt (in_order True val) (sort_key val xs)" for val :: "'a \<Rightarrow> real" and xs
    using sorted_sort_key [of val xs] by (simp add: sorted_map in_order_ascending)
  have desc: "sorted_wrt (in_order False val) (rev (sort_key val (rev xs)))"
    for val :: "'a \<Rightarrow> real" and xs
    using sorted_sort_key [of val "rev xs"]
    by (simp add: sorted_map in_order_descending sorted_wrt_rev)
  show ?thesis
    unfolding sorts_by_value_def stable_sort_values_def
    using asc desc by auto
qed

text \<open>
  When the values are pairwise different, the descending order admits one arrangement
  only, whatever routine produced it.
\<close>

lemma descending_unique:
  fixes val :: "'a \<Rightarrow> real"
  assumes "mset ys = mset zs"
    and "sorted_wrt (\<lambda>a b. val b \<le> val a) ys"
    and "sorted_wrt (\<lambda>a b. val b < val a) zs"
  shows "ys = zs"
proof -
  have "sorted_wrt (\<lambda>a b. val b \<le> val a) zs"
    using assms(3) by (rule sorted_wrt_mono_rel [rotated]) simp
  then have sz: "sorted (rev (map val zs))"
    by (simp add: sorted_wrt_rev sorted_wrt_map rev_map)
  have sy: "sorted (rev (map val ys))"
    using assms(2) by (simp add: sorted_wrt_rev sorted_wrt_map rev_map)
  have "mset (rev (map val ys)) = mset (rev (map val zs))"
    using assms(1) by (metis mset_map mset_rev)
  with sy sz have "rev (map val ys) = rev (map val zs)"
    by (metis properties_for_sort)
  then have eq: "map val ys = map val zs"
    by simp
  have "distinct (map val zs)"
    using assms(3) by (simp add: distinct_conv_nth sorted_wrt_iff_nth_less)
      (metis less_irrefl linorder_neqE_nat)
  then have "inj_on val (set zs)"
    by (simp add: distinct_map)
  moreover have "set ys = set zs"
    using assms(1) by (metis set_mset_mset)
  ultimately have "inj_on val (set ys \<union> set zs)"
    by simp
  with eq show ?thesis
    by (rule map_inj_on)
qed

lemma example_groups:
  "groupby_sum state_name example_table = [(''Bihar'', 1000), (''Goa'', 9000), (''Odisha'', 2000)]"
  by (simp add: groupby_sum_def sorted_unique_def example_table_def rural_row_1_def
      rural_row_2_def urban_row_def)

lemma example_top_2:
  assumes "sorts_by_value sv"
  shows "create_top_states_chart sv example_table 2 = [(''Goa'', 9000), (''Odisha'', 2000)]"
proof -
  let ?ys = "sv False snd (groupby_sum state_name example_table)"
  let ?zs = "[(''Goa'', 9000), (''Odisha'', 2000), (''Bihar'', 1000 :: real)]"
  have "mset ?ys = mset ?zs"
    using sorter_mset [OF assms] by (simp add: example_groups)
  moreover have "sorted_wrt (\<lambda>a b. snd b \<le> snd a) ?ys"
    using sorter_sorted [OF assms, of False snd] by (simp add: in_order_descending)
  moreover have "sorted_wrt (\<lambda>a b. snd b < snd a) ?zs"
    by simp
  ultimately have "?ys = ?zs"
    by (rule descending_unique)
  then show ?thesis
    by (simp add: create_top_states_chart_def head_def)
qed


text \<open>Every row left out by \<open>head\<close> comes after every row it keeps.\<close>

lemma beyond_head:
  assumes "sorted_wrt P ys" and "0 \<le> n" and "h \<in> set (head n ys)"
    and "g \<in> set ys" and "g \<notin> set (head n ys)"
  shows "P h g"
proof -
  have split: "ys = take (nat n) ys @ drop (nat n) ys"
    by simp
  from assms(2,3) have h: "h \<in> set (take (nat n) ys)"
    by (simp add: head_def)
  from assms(2,5) have "g \<notin> set (take (nat n) ys)"
    by (simp add: head_def)
  with assms(4) split have g: "g \<in> set (drop (nat n) ys)"
    by (metis Un_iff set_append)
  from assms(1) split have "sorted_wrt P (take (nat n) ys @ drop (nat n) ys)"
    by simp
  with h g show ?thesis
    unfolding sorted_wrt_append by blast
qed

text \<open>The reversing routine is admissible as well.\<close>

lemma reversing_sort_values_sorts: "sorts_by_value reversing_sort_values"
proof -
  have asc: "sorted_wrt (in_order True val) (sort_key val (rev xs))"
    for val :: "'a \<Rightarrow> real" and xs
    using sorted_sort_key [of val "rev xs"] by (simp add: sorted_map in_order_ascending)
  have desc: "sorted_wrt (in_order False val) (rev (sort_key val xs))"
    for val :: "'a \<Rightarrow> real" and xs
    using sorted_sort_key [of val xs]
    by (simp add: sorted_map in_order_descending sorted_wrt_rev)
  show ?thesis
    unfolding sorts_by_value_def reversing_sort_values_def
    using asc desc by auto
qed

lemma mset_head: "mset (head n ys) \<subseteq># mset ys"
proof -
  have "mset (take k ys) \<subseteq># mset (take k ys @ drop k ys)" for k
    unfolding mset_append by (rule mset_subset_eq_add_left)
  then show ?thesis
    by (simp add: head_def)
qed

text \<open>The head of a sorted list of groups is a selection among the groups.\<close>

lemma head_selection:
  assumes "sorts_by_value sv" and "0 \<le> n"
  shows "selection_of asc val (nat n) xs (head n (sv asc val xs))"
proof -
  let ?ys = "sv asc val xs"
  have len: "length (head n ?ys) = min (nat n) (length xs)"
    using assms(2) by (simp add: length_head sorter_length [OF assms(1)])
  have sub: "mset (head n ?ys) \<subseteq># mset xs"
    using mset_head [of n ?ys] by (simp add: sorter_mset [OF assms(1)])
  have sorted_ys: "sorted_wrt (in_order asc val) ?ys"
    by (rule sorter_sorted [OF assms(1)])
  then have srt: "sorted_wrt (in_order asc val) (head n ?ys)"
    by (rule sorted_wrt_head)
  have best: "\<forall>h \<in> set (head n ?ys). \<forall>g \<in> set xs - set (head n ?ys). in_order asc val h g"
  proof (intro ballI)
    fix h g
    assume h: "h \<in> set (head n ?ys)" and g: "g \<in> set xs - set (head n ?ys)"
    from g have "g \<in> set ?ys" "g \<notin> set (head n ?ys)"
      by (simp_all add: sorter_set [OF assms(1)])
    with sorted_ys assms(2) h show "in_order asc val h g"
      by (rule beyond_head)
  qed
  from len sub srt best show ?thesis
    unfolding selection_of_def by blast
qed

lemma distinct_sorted_unique: "distinct (sorted_unique ks)"
  by (simp add: sorted_unique_def)

lemma groupby_sum_keys: "map fst (groupby_sum key df) = sorted_unique (map key df)"
  by (simp add: groupby_sum_def comp_def)

lemma district_totals_keys: "map fst (district_totals df) = sorted_unique (map district_name df)"
  by (simp add: district_totals_def comp_def Let_def)

lemma set_district_totals:
  "set (district_totals df) =
     (\<lambda>k. (k, sum_list (map deposit_amount (filter (\<lambda>r. district_name r = k) df)),
            state_name (hd (filter (\<lambda>r. district_name r = k) df))))
       ` district_name ` set df"
proof -
  have first: "(case filter (\<lambda>r. district_name r = k) df of [] \<Rightarrow> [] | r # _ \<Rightarrow> state_name r)
                 = state_name (hd (filter (\<lambda>r. district_name r = k) df))"
    if "k \<in> district_name ` set df" for k
  proof -
    from that have "filter (\<lambda>r. district_name r = k) df \<noteq> []"
      by (auto simp: filter_empty_conv)
    then show ?thesis
      by (cases "filter (\<lambda>r. district_name r = k) df") simp_all
  qed
  show ?thesis
    unfolding district_totals_def Let_def set_map set_sorted_unique
    by (rule image_cong) (simp_all add: first)
qed

text \<open>On two states of equal sums the two routines disagree on the first state.\<close>

lemma tied_top_1:
  "create_top_states_chart stable_sort_values tied_table 1 = [(''Bihar'', 2000)]
   \<and> create_top_states_chart reversing_sort_values tied_table 1 = [(''Odisha'', 2000)]"
  by (simp add: create_top_states_chart_def groupby_sum_def sorted_unique_def head_def
      stable_sort_values_def reversing_sort_values_def tied_table_def)

text \<open>
  Claim C5 as stated does not hold, even with a sorting routine that keeps equal values
  in their incoming order. The selection is made among the groups of a \<^verbatim>\<open>groupby\<close>, not
  among the rows: a table of three rows of one state yields one row for Top-2. And two
  states with equal sums come out in the order of their names, not in the order of their
  rows in the source.
\<close>

theorem top_n_not_rows:
  "length one_state_table = 3
   \<and> length (create_top_states_chart stable_sort_values one_state_table 2) = 1
   \<and> map state_name tied_table = [''Odisha'', ''Bihar'']
   \<and> create_top_states_chart stable_sort_values tied_table 2
       = [(''Bihar'', 2000), (''Odisha'', 2000)]"
  by (simp add: create_top_states_chart_def groupby_sum_def sorted_unique_def head_def
      stable_sort_values_def one_state_table_def tied_table_def)

text \<open>
  Claim C5, amended. For every sorting routine that returns the same rows in the requested
  order of the value, and every \<open>N \<ge> 0\<close>: the Top-N chart of states first sums the deposits
  per state, one group per distinct state, and returns a selection of \<open>N\<close> of these groups
  by non-increasing sum: \<open>min N (number of distinct states)\<close> groups, none twice, in
  non-increasing order of the sum, and no group left out has a larger sum than a group
  returned. The Top-10 and Bottom-10 districts are such selections of ten among the groups
  per district (the district, the sum of its deposits, the state of its first row), by
  non-increasing and by non-decreasing sum. On the specification's three rows, lying in
  three states, Top-2 is the Urban row's state with 9000, then the second Rural row's state
  with 2000. The order among groups of equal sum is not fixed: on two states of equal sums
  two admissible routines return different states for Top-1.
\<close>

theorem top_n_groups:
  assumes "sorts_by_value sv" and "sorts_by_value sv2" and "0 \<le> top_n"
  shows "set (groupby_sum state_name df)
           = (\<lambda>k. (k, sum_list (map deposit_amount (filter (\<lambda>r. state_name r = k) df))))
               ` state_name ` set df
    \<and> distinct (map fst (groupby_sum state_name df))
    \<and> length (groupby_sum state_name df) = card (state_name ` set df)
    \<and> selection_of False snd (nat top_n) (groupby_sum state_name df)
         (create_top_states_chart sv df top_n)
    \<and> set (district_totals df)
         = (\<lambda>k. (k, sum_list (map deposit_amount (filter (\<lambda>r. district_name r = k) df)),
                  state_name (hd (filter (\<lambda>r. district_name r = k) df))))
             ` district_name ` set df
    \<and> distinct (map fst (district_totals df))
    \<and> length (district_totals df) = card (district_name ` set df)
    \<and> selection_of False (\<lambda>g. fst (snd g)) 10 (district_totals df) (top_districts sv2 df)
    \<and> selection_of True (\<lambda>g. fst (snd g)) 10 (district_totals df) (bottom_districts sv2 df)
    \<and> create_top_states_chart sv example_table 2 = [(''Goa'', 9000), (''Odisha'', 2000)]
    \<and> sorts_by_value (reversing_sort_values :: (string \<times> real) sorter)
    \<and> create_top_states_chart stable_sort_values tied_table 1 = [(''Bihar'', 2000)]
    \<and> create_top_states_chart reversing_sort_values tied_table 1 = [(''Odisha'', 2000)]"
proof -
  have ten: "(0 :: int) \<le> 10" "nat 10 = 10"
    by simp_all
  have states: "selection_of False snd (nat top_n) (groupby_sum state_name df)
         (create_top_states_chart sv df top_n)"
    unfolding create_top_states_chart_def by (rule head_selection [OF assms(1,3)])
  have top: "selection_of False (\<lambda>g. fst (snd g)) 10 (district_totals df) (top_districts sv2 df)"
    unfolding top_districts_def
    using head_selection [OF assms(2) ten(1), of False "\<lambda>g. fst (snd g)" "district_totals df"]
    by (simp only: ten(2))
  have bottom: "selection_of True (\<lambda>g. fst (snd g)) 10 (district_totals df) (bottom_districts sv2 df)"
    unfolding bottom_districts_def
    using head_selection [OF assms(2) ten(1), of True "\<lambda>g. fst (snd g)" "district_totals df"]
    by (simp only: ten(2))
  have dk: "distinct (map fst (groupby_sum state_name df))"
    "distinct (map fst (district_totals df))"
    by (simp_all only: groupby_sum_keys district_totals_keys distinct_sorted_unique)
  show ?thesis
    by (intro conjI set_groupby_sum dk length_groupby_sum states set_district_totals
        length_district_totals top bottom example_top_2 [OF assms(1)]
        reversing_sort_values_sorts conjunct1 [OF tied_top_1] conjunct2 [OF tied_top_1])
qed

text \<open>With the stable routine, on the one-state table and on the example table.\<close>

lemma one_state_groups:
  "card (state_name ` set one_state_table) = 1 \<and> card (district_name ` set one_state_table) = 3"
  by (simp add: one_state_table_def)

theorem top_n_groups_witness:
  "sorts_by_value (stable_sort_values :: (string \<times> real) sorter)
   \<and> sorts_by_value (stable_sort_values :: (string \<times> real \<times> string) sorter)
   \<and> (0 :: int) \<le> 2
   \<and> length (create_top_states_chart stable_sort_values one_state_table 2) = 1
   \<and> length (top_districts stable_sort_values one_state_table) = 3
   \<and> create_top_states_chart stable_sort_values example_table 2
       = [(''Goa'', 9000), (''Odisha'', 2000)]"
proof -
  have two: "(0 :: int) \<le> 2"
    by simp
  from top_n_groups [OF stable_sort_values_sorts stable_sort_values_sorts two, of one_state_table]
  show ?thesis
    by (simp add: stable_sort_values_sorts one_state_groups selection_of_def)
qed

end
